theory Spec2Isabelle
  imports Complex_Main "HOL-Library.Char_ord" "HOL-Library.List_Lexorder" "HOL-Library.AList"
begin

section \<open>Strings\<close>

text \<open>
  Python's \<open>str\<close> is modelled as \<open>string\<close> (a list of 8-bit characters): a text is
  its UTF-8 bytes, which for ASCII text is Python's own sequence of code points.
\<close>

definition isspace :: "char \<Rightarrow> bool" where
  "isspace c = (let n = of_char c :: nat in (9 \<le> n \<and> n \<le> 13) \<or> (28 \<le> n \<and> n \<le> 32))"

definition lstrip_ws :: "string \<Rightarrow> string" where
  "lstrip_ws s = dropWhile isspace s"

definition strip :: "string \<Rightarrow> string" where
  "strip s = rev (dropWhile isspace (rev (dropWhile isspace s)))"

text \<open>\<open>sep.join(xs)\<close>.\<close>

fun join :: "string \<Rightarrow> string list \<Rightarrow> string" where
  "join sep [] = []"
| "join sep [x] = x"
| "join sep (x # y # ys) = x @ sep @ join sep (y # ys)"

text \<open>\<open>s.split(c)\<close> for a separator of one character: empty pieces are kept.\<close>

fun split_on :: "char \<Rightarrow> string \<Rightarrow> string list" where
  "split_on c [] = [[]]"
| "split_on c (x # xs) =
     (if x = c then [] # split_on c xs
      else (case split_on c xs of
              [] \<Rightarrow> [[x]]
            | p # ps \<Rightarrow> (x # p) # ps))"

text \<open>\<open>s.rsplit(" ", 1)[0]\<close>: what stands before the last blank, the whole of
  \<open>s\<close> when it has none.\<close>

definition rsplit1_head :: "string \<Rightarrow> string" where
  "rsplit1_head s =
     (if CHR '' '' \<in> set s then rev (tl (dropWhile (\<lambda>c. c \<noteq> CHR '' '') (rev s))) else s)"

text \<open>\<open>str(n)\<close> for a non-negative integer.\<close>

fun digits :: "nat \<Rightarrow> string" where
  "digits n = (if n < 10 then [char_of (48 + n)] else digits (n div 10) @ [char_of (48 + n mod 10)])"

declare digits.simps [simp del]

text \<open>\<open>s.replace("spec:", "")\<close>: every occurrence is removed, left to right,
  and the scan goes on after the removed occurrence.\<close>

fun replace_spec_prefix :: "string \<Rightarrow> string" where
  "replace_spec_prefix [] = []"
| "replace_spec_prefix (c # cs) =
     (if take 5 (c # cs) = ''spec:'' then replace_spec_prefix (drop 4 cs)
      else c # replace_spec_prefix cs)"

section \<open>Impact graph\<close>

text \<open>
  The node and edge records of \<open>specmem.impact.graph_models\<close> and the graph of
  \<open>specmem.impact.graph\<close> are not among the sources; the client only forwards to them.
  They follow the data model of the specification: a node has a typed identifier, a kind
  and, as metadata, the path of its file; an edge has two identifiers, a kind and a
  confidence.
\<close>

datatype node_type = SPEC | CODE | TEST

datatype edge_type = IMPLEMENTS | TESTS | REFERENCES | SUGGESTED

record graph_node =
  node_id :: string
  node_kind :: node_type
  node_path :: string

record graph_edge =
  edge_source :: string
  edge_target :: string
  edge_kind :: edge_type
  edge_confidence :: rat

record impact_graph =
  nodes :: "graph_node list"
  edges :: "graph_edge list"

record impact_set =
  impact_specs :: "graph_node list"
  impact_code :: "graph_node list"
  impact_tests :: "graph_node list"

text \<open>
  Modelled from the spec: the seed set of \<open>SpecImpactGraph.query_impact\<close>
  (\<open>specmem/impact/graph.py\<close> is missing), the identifiers of the CODE and TEST nodes
  whose path is an entry of \<open>changed_files\<close>. A path that no node has selects nothing.
\<close>

definition is_seed :: "string list \<Rightarrow> graph_node \<Rightarrow> bool" where
  "is_seed changed n = (node_kind n \<noteq> SPEC \<and> node_path n \<in> set changed)"

definition seed_ids :: "impact_graph \<Rightarrow> string list \<Rightarrow> string list" where
  "seed_ids g changed = remdups (map node_id (filter (is_seed changed) (nodes g)))"

text \<open>
  Modelled from the spec: the edges that the traversal of \<open>query_impact\<close> follows.
  SUGGESTED edges count only with \<open>include_suggested\<close>; the confidence is carried
  and never filters. The view is undirected: an edge leads from each end to the other.
\<close>

definition usable_edges :: "impact_graph \<Rightarrow> bool \<Rightarrow> graph_edge list" where
  "usable_edges g include_suggested =
     filter (\<lambda>e. include_suggested \<or> edge_kind e \<noteq> SUGGESTED) (edges g)"

definition neighbours :: "impact_graph \<Rightarrow> bool \<Rightarrow> string \<Rightarrow> string list" where
  "neighbours g include_suggested v =
     map edge_target (filter (\<lambda>e. edge_source e = v) (usable_edges g include_suggested)) @
     map edge_source (filter (\<lambda>e. edge_target e = v) (usable_edges g include_suggested))"

text \<open>
  Modelled from the spec: one hop of the breadth-first traversal of \<open>query_impact\<close>.
  The state is the frontier and the identifiers reached so far; the next frontier is the
  neighbours of the frontier that were not reached before, each once.
\<close>

definition bfs_step ::
  "impact_graph \<Rightarrow> bool \<Rightarrow> string list \<times> string list \<Rightarrow> string list \<times> string list" where
  "bfs_step g include_suggested st =
     (case st of (frontier, visited) \<Rightarrow>
        let next = remdups (filter (\<lambda>w. w \<notin> set visited)
                     (concat (map (neighbours g include_suggested) frontier)))
        in (next, visited @ next))"

text \<open>
  Modelled from the spec: the identifiers that \<open>query_impact\<close> reaches, the seeds and
  what \<open>depth\<close> hops add to them.
\<close>

definition reached_ids :: "impact_graph \<Rightarrow> string list \<Rightarrow> nat \<Rightarrow> bool \<Rightarrow> string list" where
  "reached_ids g changed depth include_suggested =
     snd ((bfs_step g include_suggested ^^ depth) (seed_ids g changed, seed_ids g changed))"

text \<open>
  Modelled from the spec: the result of \<open>query_impact\<close>, the reached nodes looked up
  in the node collection, split by kind, without duplicates and ordered by identifier.
\<close>

definition nodes_of_kind :: "impact_graph \<Rightarrow> string list \<Rightarrow> node_type \<Rightarrow> graph_node list" where
  "nodes_of_kind g ids k =
     sort_key node_id
       (remdups (filter (\<lambda>n. node_kind n = k \<and> node_id n \<in> set ids) (nodes g)))"

definition query_impact :: "impact_graph \<Rightarrow> string list \<Rightarrow> nat \<Rightarrow> bool \<Rightarrow> impact_set" where
  "query_impact g changed depth include_suggested =
     (let ids = reached_ids g changed depth include_suggested in
      \<lparr>impact_specs = nodes_of_kind g ids SPEC,
       impact_code = nodes_of_kind g ids CODE,
       impact_tests = nodes_of_kind g ids TEST\<rparr>)"

text \<open>The identifiers of the nodes of an impact set.\<close>

definition impact_ids :: "impact_set \<Rightarrow> string set" where
  "impact_ids s = node_id ` (set (impact_specs s) \<union> set (impact_code s) \<union> set (impact_tests s))"

text \<open>The graph of the first example scenario of the specification, with a test and a
  second specification behind it.\<close>

definition example_graph :: impact_graph where
  "example_graph =
     \<lparr>nodes =
        [\<lparr>node_id = ''code:a.py'', node_kind = CODE, node_path = ''a.py''\<rparr>,
         \<lparr>node_id = ''spec:S1'', node_kind = SPEC, node_path = ''''\<rparr>,
         \<lparr>node_id = ''test:test_a.py'', node_kind = TEST, node_path = ''test_a.py''\<rparr>,
         \<lparr>node_id = ''spec:S2'', node_kind = SPEC, node_path = ''''\<rparr>],
      edges =
        [\<lparr>edge_source = ''code:a.py'', edge_target = ''spec:S1'', edge_kind = IMPLEMENTS,
          edge_confidence = 1\<rparr>,
         \<lparr>edge_source = ''test:test_a.py'', edge_target = ''spec:S1'', edge_kind = TESTS,
          edge_confidence = 1\<rparr>,
         \<lparr>edge_source = ''test:test_a.py'', edge_target = ''spec:S2'', edge_kind = SUGGESTED,
          edge_confidence = 1 / 2\<rparr>]\<rparr>"

section \<open>Specification blocks and the client\<close>

text \<open>
  \<open>SpecType\<close> and \<open>SpecBlock\<close> are declared in \<open>specmem.core.specir\<close>, which is
  not among the sources; the members named by the client are kept as constructors and
  any further member is \<open>OTHER\<close> with its value.
\<close>

datatype spec_type = REQUIREMENT | DESIGN | TASK | DECISION | KNOWLEDGE | OTHER string

text \<open>\<open>SpecStatus\<close>, with the members that the client's \<open>list_specs\<close> names.\<close>

datatype spec_status = ACTIVE | DEPRECATED | LEGACY | OBSOLETE

fun type_value :: "spec_type \<Rightarrow> string" where
  "type_value REQUIREMENT = ''requirement''"
| "type_value DESIGN = ''design''"
| "type_value TASK = ''task''"
| "type_value DECISION = ''decision''"
| "type_value KNOWLEDGE = ''knowledge''"
| "type_value (OTHER v) = v"

record spec_block =
  block_id :: string
  block_type :: spec_type
  block_text :: string
  block_source :: string
  block_status :: spec_status
  block_pinned :: bool

text \<open>\<open>SpecSummary\<close>; the relevance is a Python float, kept abstract as a type
  with a comparison.\<close>

record 'r spec_summary =
  sum_id :: string
  sum_type :: string
  sum_title :: string
  sum_summary :: string
  sum_source :: string
  sum_relevance :: 'r
  sum_pinned :: bool

record 'r context_bundle =
  specs :: "'r spec_summary list"
  designs :: "'r spec_summary list"
  tests :: "string list"
  tldr :: string
  total_tokens :: int
  token_budget :: int
  changed_files :: "string list"
  message :: string

datatype error = GraphError string | MemoryBankError string

text \<open>
  The collaborators of the client that are not among the sources are fields of the
  client: the memory bank's ranked query (\<open>None\<close> when \<open>_memory_bank\<close> is
  \<open>None\<close>; the arguments are the query text, \<open>top_k\<close>, \<open>include_legacy\<close> and
  \<open>include_pinned\<close>), the token estimator's \<open>count_tokens\<close>, and
  \<open>self.graph.query_impact\<close>, the lazily loaded impact graph with its query, which
  like the memory bank may raise. \<open>_parse_git_diff\<close> collects the paths of a diff
  with two regular expressions and returns them in the order of a Python \<open>set\<close>,
  which the language leaves open: it is a field as well.
\<close>

record 'r client =
  blocks :: "spec_block list"
  memory_bank :: "(string \<Rightarrow> nat \<Rightarrow> bool \<Rightarrow> bool \<Rightarrow> error + (spec_block \<times> 'r) list) option"
  count_tokens :: "string \<Rightarrow> int"
  graph_query_impact :: "string list \<Rightarrow> nat \<Rightarrow> bool \<Rightarrow> error + impact_set"
  parse_git_diff :: "string \<Rightarrow> string list"

definition DEFAULT_TOKEN_BUDGET :: int where
  "DEFAULT_TOKEN_BUDGET = 4000"

definition DEFAULT_TLDR_BUDGET :: int where
  "DEFAULT_TLDR_BUDGET = 500"

definition find_relevant_blocks ::
  "('r, 'x) client_scheme \<Rightarrow> string list \<Rightarrow> error + (spec_block \<times> 'r) list" where
  "find_relevant_blocks cl files =
     (case memory_bank cl of
        None \<Rightarrow> Inr []
      | Some query \<Rightarrow> query (join '' '' files) 20 False True)"

definition extract_title_line :: "string \<Rightarrow> string option" where
  "extract_title_line l =
     (let line = strip l in
      if take 1 line = ''#'' then Some (strip (dropWhile (\<lambda>c. c = CHR ''#'') line))
      else if line \<noteq> [] \<and> take 1 line \<noteq> ''-''
        then Some (take 50 line @ (if length line > 50 then ''...'' else []))
      else None)"

fun extract_title_lines :: "string list \<Rightarrow> string" where
  "extract_title_lines [] = ''Untitled''"
| "extract_title_lines (l # ls) =
     (case extract_title_line l of Some t \<Rightarrow> t | None \<Rightarrow> extract_title_lines ls)"

definition extract_title :: "string \<Rightarrow> string" where
  "extract_title text = extract_title_lines (split_on (CHR 0x0A) (strip text))"

definition truncate_text :: "string \<Rightarrow> nat \<Rightarrow> string" where
  "truncate_text text max_length =
     (if length text \<le> max_length then text
      else rsplit1_head (take max_length text) @ ''...'')"

text \<open>The marker of a pinned entry, as the bytes of the literal in the source file.\<close>

definition pin_marker :: string where
  "pin_marker = [CHR 0xC3, CHR 0xB0, CHR 0xC5, CHR 0xB8, CHR 0xE2, CHR 0x80, CHR 0x9C,
                 CHR 0xC5, CHR 0x92, CHR 0x20]"

definition tldr_line :: "'r spec_summary \<Rightarrow> string" where
  "tldr_line s =
     ''- '' @ (if sum_pinned s then pin_marker else []) @ ''['' @ sum_type s @ ''] '' @ sum_title s"

text \<open>\<open>lines.pop(-2)\<close>, on a list of at least two lines.\<close>

definition pop_second_last :: "'a list \<Rightarrow> 'a list" where
  "pop_second_last ls = butlast (butlast ls) @ [last ls]"

function tldr_truncate :: "(string \<Rightarrow> int) \<Rightarrow> int \<Rightarrow> string list \<Rightarrow> string" where
  "tldr_truncate ct budget ls =
     (if ct (join [CHR 0x0A] ls) > budget \<and> length ls > 2
      then tldr_truncate ct budget (pop_second_last ls)
      else join [CHR 0x0A] ls)"
  by pat_completeness auto
termination
  by (relation "measure (\<lambda>(ct, budget, ls). length ls)") (auto simp: pop_second_last_def)

declare tldr_truncate.simps [simp del]

definition generate_tldr :: "('r, 'x) client_scheme \<Rightarrow> 'r spec_summary list \<Rightarrow> int \<Rightarrow> string" where
  "generate_tldr cl summaries budget =
     (if summaries = [] then ''No specifications available.''
      else
        let ls = [''Key specifications:''] @ map tldr_line (take 5 summaries);
            ls = (if length summaries > 5
                  then ls @ [''- ...and '' @ digits (length summaries - 5) @ '' more'']
                  else ls)
        in tldr_truncate (count_tokens cl) budget ls)"

definition estimate_bundle_tokens ::
  "('r, 'x) client_scheme \<Rightarrow> 'r spec_summary list \<Rightarrow> 'r spec_summary list \<Rightarrow> string \<Rightarrow> int" where
  "estimate_bundle_tokens cl ss ds t =
     fold (\<lambda>d tokens. tokens + count_tokens cl (sum_summary d) + 20) ds
       (fold (\<lambda>s tokens. tokens + count_tokens cl (sum_summary s) + 20) ss
          (count_tokens cl t))"

definition summarise :: "spec_block \<times> 'r \<Rightarrow> 'r spec_summary" where
  "summarise p =
     (case p of (block, score) \<Rightarrow>
        \<lparr>sum_id = block_id block,
         sum_type = type_value (block_type block),
         sum_title = extract_title (block_text block),
         sum_summary = truncate_text (block_text block) 200,
         sum_source = block_source block,
         sum_relevance = score,
         sum_pinned = block_pinned block\<rparr>)"

text \<open>The loop that sorts the summaries into \<open>specs\<close> and \<open>designs\<close>.\<close>

fun categorize ::
  "(spec_block \<times> 'r) list \<Rightarrow> 'r spec_summary list \<Rightarrow> 'r spec_summary list \<Rightarrow>
   'r spec_summary list \<times> 'r spec_summary list" where
  "categorize [] ss ds = (ss, ds)"
| "categorize (p # ps) ss ds =
     (let summary = summarise p; t = block_type (fst p) in
      if t = REQUIREMENT \<or> t = TASK \<or> t = KNOWLEDGE then categorize ps (ss @ [summary]) ds
      else if t = DESIGN \<or> t = DECISION then categorize ps ss (ds @ [summary])
      else categorize ps (ss @ [summary]) ds)"

text \<open>
  The truncation loop of \<open>get_context_for_change\<close>: while the bundle is over budget and
  something is left, the last design is dropped when there is no spec or its relevance is
  below the last spec's, the last spec otherwise. The third branch is the source's path on
  which neither \<open>if\<close> nor \<open>elif\<close> fires.
\<close>

function truncate_bundle ::
  "('r::ord, 'x) client_scheme \<Rightarrow> string \<Rightarrow> int \<Rightarrow> 'r spec_summary list \<Rightarrow> 'r spec_summary list \<Rightarrow>
   int \<Rightarrow> 'r spec_summary list \<times> 'r spec_summary list \<times> int" where
  "truncate_bundle cl t budget ss ds tokens =
     (if tokens > budget \<and> (ss \<noteq> [] \<or> ds \<noteq> []) then
        (if ds \<noteq> [] \<and> (ss = [] \<or> sum_relevance (last ds) < sum_relevance (last ss))
         then truncate_bundle cl t budget ss (butlast ds)
                (estimate_bundle_tokens cl ss (butlast ds) t)
         else if ss \<noteq> []
         then truncate_bundle cl t budget (butlast ss) ds
                (estimate_bundle_tokens cl (butlast ss) ds t)
         else truncate_bundle cl t budget ss ds (estimate_bundle_tokens cl ss ds t))
      else (ss, ds, tokens))"
  by pat_completeness auto
termination
  by (relation "measure (\<lambda>(cl, t, budget, ss, ds, tokens). length ss + length ds)")
     (auto simp: neq_Nil_conv)

declare truncate_bundle.simps [simp del]

text \<open>
  \<open>get_context_for_change\<close>. The declaration of \<open>ContextBundle\<close> is not among the
  sources: \<open>dflt\<close> holds the values of the fields that a constructor call leaves out.
  A failure of the memory bank's query is not caught and leaves the function.
\<close>

definition get_context_for_change ::
  "'r context_bundle \<Rightarrow> ('r::ord, 'x) client_scheme \<Rightarrow> string list \<Rightarrow> int \<Rightarrow> string \<Rightarrow>
   error + 'r context_bundle" where
  "get_context_for_change dflt cl files budget fmt =
     (if files = [] then
        Inr (dflt\<lparr>token_budget := budget, message := ''No changed files provided''\<rparr>)
      else
        (case find_relevant_blocks cl files of
           Inl e \<Rightarrow> Inl e
         | Inr relevant_blocks \<Rightarrow>
             if relevant_blocks = [] then
               Inr (dflt\<lparr>changed_files := files, token_budget := budget,
                      message := ''No related specifications found for the changed files''\<rparr>)
             else
               (case categorize relevant_blocks [] [] of (ss, ds) \<Rightarrow>
                  let t = generate_tldr cl (ss @ ds) DEFAULT_TLDR_BUDGET;
                      tokens = estimate_bundle_tokens cl ss ds t
                  in (case truncate_bundle cl t budget ss ds tokens of (ss', ds', tokens') \<Rightarrow>
                        Inr (dflt\<lparr>specs := ss', designs := ds', tests := [], tldr := t,
                               total_tokens := tokens', token_budget := budget,
                               changed_files := files\<rparr>)))))"

text \<open>A small client for evaluating the functions: its memory bank ranks a requirement
  above a design, and a token is a character.\<close>

definition example_blocks :: "(spec_block \<times> int) list" where
  "example_blocks =
     [(\<lparr>block_id = ''S1'', block_type = REQUIREMENT, block_text = ''Shall support X'',
        block_source = ''reqs.md'', block_status = ACTIVE, block_pinned = False\<rparr>, 2),
      (\<lparr>block_id = ''D1'', block_type = DESIGN, block_text = ''Use Y'',
        block_source = ''design.md'', block_status = ACTIVE, block_pinned = False\<rparr>, 1)]"

definition example_client :: "int client" where
  "example_client =
     \<lparr>blocks = map fst example_blocks,
      memory_bank = Some (\<lambda>q k legacy pinned. Inr example_blocks),
      count_tokens = (\<lambda>s. int (length s)),
      graph_query_impact = (\<lambda>files depth suggested. Inl (GraphError ''corrupt store'')),
      parse_git_diff = (\<lambda>d. [])\<rparr>"

definition empty_bundle :: "int context_bundle" where
  "empty_bundle =
     \<lparr>specs = [], designs = [], tests = [], tldr = [], total_tokens = 0, token_budget = 0,
      changed_files = [], message = []\<rparr>"

text \<open>\<open>get_impact_set\<close> forwards to the graph's \<open>query_impact\<close>.\<close>

definition get_impact_set ::
  "('r, 'x) client_scheme \<Rightarrow> string list \<Rightarrow> nat \<Rightarrow> bool \<Rightarrow> error + impact_set" where
  "get_impact_set cl files depth include_suggested =
     graph_query_impact cl files depth include_suggested"

text \<open>A client whose graph is loaded and is the graph \<open>g\<close>.\<close>

definition with_graph :: "('r, 'x) client_scheme \<Rightarrow> impact_graph \<Rightarrow> ('r, 'x) client_scheme" where
  "with_graph cl g =
     cl\<lparr>graph_query_impact := (\<lambda>files depth suggested. Inr (query_impact g files depth suggested))\<rparr>"

text \<open>The files that \<open>get_impacted_specs\<close> works on: \<open>changed_files or []\<close>, extended
  by the paths of the diff when a non-empty diff is given.\<close>

definition impacted_files ::
  "('r, 'x) client_scheme \<Rightarrow> string list option \<Rightarrow> string option \<Rightarrow> string list" where
  "impacted_files cl changed git_diff =
     (let files = (case changed of None \<Rightarrow> [] | Some fs \<Rightarrow> fs) in
      case git_diff of
        None \<Rightarrow> files
      | Some d \<Rightarrow> if d = [] then files else files @ parse_git_diff cl d)"

text \<open>
  \<open>get_impacted_specs\<close>: the traversal with the default depth 2 and without suggested
  links, its specs mapped back to the blocks; \<open>except Exception\<close> sends every failure
  of the traversal to the semantic search, whose own failure is not caught.
\<close>

definition get_impacted_specs ::
  "('r, 'x) client_scheme \<Rightarrow> string list option \<Rightarrow> string option \<Rightarrow> error + spec_block list" where
  "get_impacted_specs cl changed git_diff =
     (let files = impacted_files cl changed git_diff in
      if files = [] then Inr []
      else
        (case get_impact_set cl files 2 False of
           Inr impact \<Rightarrow>
             let spec_ids = set (map (\<lambda>node. replace_spec_prefix (node_id node)) (impact_specs impact))
             in Inr (filter (\<lambda>block. block_id block \<in> spec_ids) (blocks cl))
         | Inl e \<Rightarrow>
             (case find_relevant_blocks cl files of
                Inl e' \<Rightarrow> Inl e'
              | Inr relevant \<Rightarrow> Inr (map fst relevant))))"

section \<open>Version store\<close>

text \<open>
  The client forwards \<open>track_spec_version\<close>, \<open>get_spec_history\<close>, \<open>get_spec_diff\<close>,
  \<open>check_staleness\<close>, \<open>get_deprecations\<close> and \<open>acknowledge_staleness\<close> to
  \<open>SpecDiff\<close> (\<open>specmem/diff\<close>), which is not among the sources, as its models
  (\<open>specmem/diff/models.py\<close>) are not. The records follow the data model of the
  specification; the type of version identifiers is left open.
\<close>

record 'v spec_version =
  sv_spec_id :: string
  sv_sequence :: nat
  sv_version_id :: 'v
  sv_timestamp :: int
  sv_text :: string
  sv_status :: spec_status

datatype change_kind = ADDED | REMOVED | MODIFIED

record 'v spec_change =
  change_spec_id :: string
  change_from :: 'v
  change_to :: 'v
  change_units :: "(change_kind \<times> string) list"

record 'v staleness_warning =
  warn_spec_id :: string
  warn_cached :: 'v
  warn_current :: 'v
  warn_acknowledged :: bool

record deprecation =
  dep_spec_id :: string
  dep_deprecated_at :: int
  dep_deadline :: "int option"
  dep_urgency :: rat

text \<open>
  The store: the history, a mapping from spec id to an ordered list of versions, kept as
  an association list in the order of first tracking; the acknowledged pairs of spec id and
  version id; and the optional deadline of a spec.
\<close>

record 'v version_store =
  history :: "(string \<times> 'v spec_version list) list"
  acknowledged :: "(string \<times> 'v) list"
  deadlines :: "(string \<times> int) list"

definition empty_store :: "'v version_store" where
  "empty_store = \<lparr>history = [], acknowledged = [], deadlines = []\<rparr>"

definition versions_of :: "('v, 'x) version_store_scheme \<Rightarrow> string \<Rightarrow> 'v spec_version list" where
  "versions_of st sid = (case map_of (history st) sid of None \<Rightarrow> [] | Some vs \<Rightarrow> vs)"

text \<open>
  Modelled from the spec: the sequence number that \<open>SpecDiff.track_version\<close> (missing)
  gives the next version, \<open>1 + max(existing sequences for this spec id, default 0)\<close>.
\<close>

definition next_sequence :: "'v spec_version list \<Rightarrow> nat" where
  "next_sequence vs = 1 + fold max (map sv_sequence vs) 0"

text \<open>
  Modelled from the spec: \<open>SpecDiff.track_version\<close> (missing). It always appends one
  version to the history of the block's spec id; the version id is the hash \<open>h\<close> of spec
  id, sequence and text, a parameter, as is the time of the call. A version tracked for a
  spec ends the acknowledgments given for that spec.
\<close>

definition track_version ::
  "(string \<Rightarrow> nat \<Rightarrow> string \<Rightarrow> 'v) \<Rightarrow> int \<Rightarrow> ('v, 'x) version_store_scheme \<Rightarrow> spec_block \<Rightarrow>
   'v spec_version \<times> ('v, 'x) version_store_scheme" where
  "track_version h now st block =
     (let existing = versions_of st (block_id block);
          sequence = next_sequence existing;
          version = \<lparr>sv_spec_id = block_id block,
                     sv_sequence = sequence,
                     sv_version_id = h (block_id block) sequence (block_text block),
                     sv_timestamp = now,
                     sv_text = block_text block,
                     sv_status = block_status block\<rparr>
      in (version,
          st\<lparr>history := AList.update (block_id block) (existing @ [version]) (history st),
             acknowledged := filter (\<lambda>a. fst a \<noteq> block_id block) (acknowledged st)\<rparr>))"

text \<open>Tracking the blocks of a list in turn, each at its own time.\<close>

fun track_all ::
  "(string \<Rightarrow> nat \<Rightarrow> string \<Rightarrow> 'v) \<Rightarrow> ('v, 'x) version_store_scheme \<Rightarrow> (spec_block \<times> int) list \<Rightarrow>
   ('v, 'x) version_store_scheme" where
  "track_all h st [] = st"
| "track_all h st (p # ps) = track_all h (snd (track_version h (snd p) st (fst p))) ps"

text \<open>
  Modelled from the spec: \<open>SpecDiff.get_history\<close> (missing), oldest first, capped to the
  most recent \<open>limit\<close> entries when a limit is given.
\<close>

definition get_history ::
  "('v, 'x) version_store_scheme \<Rightarrow> string \<Rightarrow> nat option \<Rightarrow> 'v spec_version list" where
  "get_history st sid limit =
     (let vs = versions_of st sid in
      case limit of None \<Rightarrow> vs | Some n \<Rightarrow> drop (length vs - n) vs)"

text \<open>
  Modelled from the spec: \<open>SpecDiff.get_diff\<close> (missing). It is absent with fewer than
  two versions; with a version argument omitted it compares the two most recent versions,
  otherwise the two versions named. The alignment of the two texts into change units is the
  parameter \<open>units\<close>: the specification names a longest-common-subsequence alignment and
  does not fix which one. A version id that the history does not hold gives absent, which
  the specification leaves open.
\<close>

definition find_version :: "'v spec_version list \<Rightarrow> 'v \<Rightarrow> 'v spec_version option" where
  "find_version vs v = find (\<lambda>x. sv_version_id x = v) vs"

definition make_change ::
  "(string \<Rightarrow> string \<Rightarrow> (change_kind \<times> string) list) \<Rightarrow> 'v spec_version \<Rightarrow> 'v spec_version \<Rightarrow>
   'v spec_change" where
  "make_change units a b =
     \<lparr>change_spec_id = sv_spec_id b,
      change_from = sv_version_id a,
      change_to = sv_version_id b,
      change_units = units (sv_text a) (sv_text b)\<rparr>"

definition get_diff ::
  "(string \<Rightarrow> string \<Rightarrow> (change_kind \<times> string) list) \<Rightarrow> ('v, 'x) version_store_scheme \<Rightarrow> string \<Rightarrow>
   'v option \<Rightarrow> 'v option \<Rightarrow> 'v spec_change option" where
  "get_diff units st sid from_version to_version =
     (let vs = versions_of st sid in
      if length vs < 2 then None
      else
        (case (from_version, to_version) of
           (Some f, Some t) \<Rightarrow>
             (case (find_version vs f, find_version vs t) of
                (Some a, Some b) \<Rightarrow> Some (make_change units a b)
              | _ \<Rightarrow> None)
         | _ \<Rightarrow> Some (make_change units (vs ! (length vs - 2)) (vs ! (length vs - 1)))))"

text \<open>
  Modelled from the spec: \<open>SpecDiff.acknowledge_staleness\<close> (missing) records the pair
  of spec id and version id, and reports success.
\<close>

definition acknowledge_staleness ::
  "('v, 'x) version_store_scheme \<Rightarrow> string \<Rightarrow> 'v \<Rightarrow> bool \<times> ('v, 'x) version_store_scheme" where
  "acknowledge_staleness st sid v =
     (True, st\<lparr>acknowledged := acknowledged st @ [(sid, v)]\<rparr>)"

text \<open>
  Modelled from the spec: \<open>SpecDiff.check_staleness\<close> (missing). A spec with a cached
  version id and a history is stale when the cached id is not the id of its latest version,
  or when a CODE or TEST node that the impact graph reaches from it was modified after the
  cached version was captured; \<open>modified\<close> gives the modification times of those nodes.
  An acknowledged pair of spec id and cached version id gives no warning.
\<close>

definition code_drifted ::
  "(string \<Rightarrow> int list) \<Rightarrow> 'v spec_version list \<Rightarrow> string \<Rightarrow> 'v \<Rightarrow> bool" where
  "code_drifted modified vs sid cached =
     (case find_version vs cached of
        None \<Rightarrow> False
      | Some c \<Rightarrow> list_ex (\<lambda>t. sv_timestamp c < t) (modified sid))"

definition staleness_of ::
  "(string \<Rightarrow> int list) \<Rightarrow> ('v, 'x) version_store_scheme \<Rightarrow> string \<Rightarrow> 'v option \<Rightarrow>
   'v staleness_warning option" where
  "staleness_of modified st sid cached_version =
     (case cached_version of
        None \<Rightarrow> None
      | Some cached \<Rightarrow>
          let vs = versions_of st sid in
          if vs = [] then None
          else if (sid, cached) \<in> set (acknowledged st) then None
          else if sv_version_id (last vs) \<noteq> cached \<or> code_drifted modified vs sid cached
          then Some \<lparr>warn_spec_id = sid, warn_cached = cached,
                     warn_current = sv_version_id (last vs), warn_acknowledged = False\<rparr>
          else None)"

definition check_staleness ::
  "(string \<Rightarrow> int list) \<Rightarrow> ('v, 'x) version_store_scheme \<Rightarrow> string list \<Rightarrow> (string \<rightharpoonup> 'v) \<Rightarrow>
   'v staleness_warning list" where
  "check_staleness modified st spec_ids cached_versions =
     List.map_filter (\<lambda>sid. staleness_of modified st sid (cached_versions sid)) spec_ids"

text \<open>
  Modelled from the spec: \<open>SpecDiff.get_deprecations\<close> (missing). Every spec whose
  latest version has the deprecated status gives an entry, deprecated at the time of that
  version, with its deadline if it has one; an entry past its deadline is left out unless
  \<open>include_expired\<close>; the entries are ordered by descending urgency. The urgency, a
  combination of the time to the deadline and the number of impacted nodes that the
  specification does not fix, is the parameter \<open>urgency\<close> applied to the time of the
  call, the deadline and the count \<open>impacted\<close> of the spec.
\<close>

definition is_deprecated :: "'v spec_version list \<Rightarrow> bool" where
  "is_deprecated vs = (vs \<noteq> [] \<and> sv_status (last vs) = DEPRECATED)"

definition deprecation_of ::
  "(int \<Rightarrow> int option \<Rightarrow> nat \<Rightarrow> rat) \<Rightarrow> (string \<Rightarrow> nat) \<Rightarrow> int \<Rightarrow> ('v, 'x) version_store_scheme \<Rightarrow>
   string \<Rightarrow> deprecation" where
  "deprecation_of urgency impacted now st sid =
     \<lparr>dep_spec_id = sid,
      dep_deprecated_at = sv_timestamp (last (versions_of st sid)),
      dep_deadline = map_of (deadlines st) sid,
      dep_urgency = urgency now (map_of (deadlines st) sid) (impacted sid)\<rparr>"

definition expired :: "int \<Rightarrow> deprecation \<Rightarrow> bool" where
  "expired now d = (case dep_deadline d of None \<Rightarrow> False | Some deadline \<Rightarrow> deadline < now)"

text \<open>\<open>sorted(ds, key=urgency, reverse=True)\<close>: descending, and stable.\<close>

definition sort_by_urgency_desc :: "deprecation list \<Rightarrow> deprecation list" where
  "sort_by_urgency_desc ds = rev (sort_key dep_urgency (rev ds))"

definition get_deprecations ::
  "(int \<Rightarrow> int option \<Rightarrow> nat \<Rightarrow> rat) \<Rightarrow> (string \<Rightarrow> nat) \<Rightarrow> int \<Rightarrow> ('v, 'x) version_store_scheme \<Rightarrow>
   bool \<Rightarrow> deprecation list" where
  "get_deprecations urgency impacted now st include_expired =
     sort_by_urgency_desc
       (filter (\<lambda>d. include_expired \<or> \<not> expired now d)
          (map (deprecation_of urgency impacted now st)
             (filter (\<lambda>sid. is_deprecated (versions_of st sid)) (map fst (history st)))))"

section \<open>Lifecycle governance\<close>

text \<open>
  \<open>specmem/vectordb/__init__.py\<close> re-exports \<open>validate_transition\<close>,
  \<open>VALID_TRANSITIONS\<close> and \<open>AuditEntry\<close> from \<open>specmem.vectordb.base\<close>, which is not
  among the sources.
\<close>

record audit_entry =
  audit_entity :: string
  audit_from :: spec_status
  audit_to :: spec_status
  audit_timestamp :: int

record governance =
  statuses :: "string \<rightharpoonup> spec_status"
  audit_log :: "audit_entry list"

datatype governance_error = InvalidTransition spec_status spec_status

text \<open>
  Modelled from the spec: \<open>validate_transition\<close> (missing) accepts a transition exactly
  when the adjacency table lists it. The table \<open>VALID_TRANSITIONS\<close> (missing) is a
  parameter: the specification leaves its content open.
\<close>

definition validate_transition ::
  "(spec_status \<Rightarrow> spec_status list) \<Rightarrow> spec_status \<Rightarrow> spec_status \<Rightarrow> bool" where
  "validate_transition table from_status to_status = (to_status \<in> set (table from_status))"

text \<open>
  Modelled from the spec: a status change that flows through governance. An accepted
  transition changes the status of the entity and appends one audit entry; a rejected one
  changes nothing and signals the invalid transition.
\<close>

definition apply_transition ::
  "(spec_status \<Rightarrow> spec_status list) \<Rightarrow> int \<Rightarrow> governance \<Rightarrow> string \<Rightarrow> spec_status \<Rightarrow> spec_status \<Rightarrow>
   (governance_error + audit_entry) \<times> governance" where
  "apply_transition table now g entity from_status to_status =
     (if validate_transition table from_status to_status then
        (let entry = \<lparr>audit_entity = entity, audit_from = from_status, audit_to = to_status,
                       audit_timestamp = now\<rparr>
         in (Inr entry,
             g\<lparr>statuses := (statuses g)(entity \<mapsto> to_status),
               audit_log := audit_log g @ [entry]\<rparr>))
      else (Inl (InvalidTransition from_status to_status), g))"

section \<open>Example stores\<close>

text \<open>An adjacency table and a governance state for evaluating the functions.\<close>

definition example_table :: "spec_status \<Rightarrow> spec_status list" where
  "example_table s = (case s of ACTIVE \<Rightarrow> [DEPRECATED, LEGACY] | DEPRECATED \<Rightarrow> [OBSOLETE, ACTIVE]
                       | LEGACY \<Rightarrow> [OBSOLETE] | OBSOLETE \<Rightarrow> [])"

definition empty_governance :: governance where
  "empty_governance = \<lparr>statuses = Map.empty, audit_log = []\<rparr>"


text \<open>
  A store for evaluating the functions: the version id is the triple it is derived from, the
  change units are the two whole texts, and the urgency grows as the deadline comes near.
\<close>

definition example_hash :: "string \<Rightarrow> nat \<Rightarrow> string \<Rightarrow> string \<times> nat \<times> string" where
  "example_hash sid sequence text = (sid, sequence, text)"

definition example_block :: "string \<Rightarrow> string \<Rightarrow> spec_status \<Rightarrow> spec_block" where
  "example_block sid text status =
     \<lparr>block_id = sid, block_type = REQUIREMENT, block_text = text, block_source = ''reqs.md'',
      block_status = status, block_pinned = False\<rparr>"

definition example_store :: "(string \<times> nat \<times> string) version_store" where
  "example_store =
     (track_all example_hash empty_store
        [(example_block ''S1'' ''Shall support X'' ACTIVE, 10),
         (example_block ''S1'' ''Shall NOT support X'' DEPRECATED, 20),
         (example_block ''S2'' ''Shall log'' DEPRECATED, 30),
         (example_block ''S3'' ''Shall cache'' DEPRECATED, 40)])
     \<lparr>deadlines := [(''S1'', 25), (''S2'', 100), (''S3'', 60)]\<rparr>"

definition example_units :: "string \<Rightarrow> string \<Rightarrow> (change_kind \<times> string) list" where
  "example_units a b = (if a = b then [] else [(REMOVED, a), (ADDED, b)])"

definition example_urgency :: "int \<Rightarrow> int option \<Rightarrow> nat \<Rightarrow> rat" where
  "example_urgency now deadline n =
     of_nat n + (case deadline of
                   None \<Rightarrow> 0
                 | Some d \<Rightarrow> if d \<le> now then 100 else 100 / of_int (d - now))"

section \<open>Properties of the impact graph\<close>

lemma snd_bfs_step_mono: "set (snd st) \<subseteq> set (snd (bfs_step g inc st))"
  by (cases st) (simp add: bfs_step_def Let_def)

lemma reached_ids_Suc:
  "set (reached_ids g changed depth inc) \<subseteq> set (reached_ids g changed (Suc depth) inc)"
  by (simp add: reached_ids_def snd_bfs_step_mono)

lemma set_nodes_of_kind:
  "set (nodes_of_kind g ids k) = {n \<in> set (nodes g). node_kind n = k \<and> node_id n \<in> set ids}"
  by (auto simp: nodes_of_kind_def)

lemma nodes_of_kind_mono:
  "set ids \<subseteq> set ids' \<Longrightarrow> set (nodes_of_kind g ids k) \<subseteq> set (nodes_of_kind g ids' k)"
  by (auto simp: set_nodes_of_kind)


text \<open>
  Claim C2. For every set of changed files and every depth, each node that
  \<open>query_impact\<close> returns at that depth it returns at the next depth too: by identifier
  over the whole impact set, and list by list for specs, code and tests.
\<close>

theorem query_impact_depth_monotone:
  "impact_ids (query_impact g changed depth inc) \<subseteq> impact_ids (query_impact g changed (Suc depth) inc)
   \<and> set (impact_specs (query_impact g changed depth inc))
       \<subseteq> set (impact_specs (query_impact g changed (Suc depth) inc))
   \<and> set (impact_code (query_impact g changed depth inc))
       \<subseteq> set (impact_code (query_impact g changed (Suc depth) inc))
   \<and> set (impact_tests (query_impact g changed depth inc))
       \<subseteq> set (impact_tests (query_impact g changed (Suc depth) inc))"
proof -
  have r: "set (reached_ids g changed depth inc) \<subseteq> set (reached_ids g changed (Suc depth) inc)"
    by (rule reached_ids_Suc)
  note m = nodes_of_kind_mono [OF r, where g = g]
  have "set (impact_specs (query_impact g changed depth inc))
       \<subseteq> set (impact_specs (query_impact g changed (Suc depth) inc))"
    using m [where k = SPEC] by (simp add: query_impact_def Let_def)
  moreover have "set (impact_code (query_impact g changed depth inc))
       \<subseteq> set (impact_code (query_impact g changed (Suc depth) inc))"
    using m [where k = CODE] by (simp add: query_impact_def Let_def)
  moreover have "set (impact_tests (query_impact g changed depth inc))
       \<subseteq> set (impact_tests (query_impact g changed (Suc depth) inc))"
    using m [where k = TEST] by (simp add: query_impact_def Let_def)
  ultimately show ?thesis
    unfolding impact_ids_def by blast
qed


text \<open>On the example graph one hop from \<open>a.py\<close> adds the specification it implements.\<close>

theorem query_impact_depth_monotone_witness:
  "impact_ids (query_impact example_graph [''a.py''] 0 False)
     \<subseteq> impact_ids (query_impact example_graph [''a.py''] (Suc 0) False)
   \<and> impact_ids (query_impact example_graph [''a.py''] 0 False) = {''code:a.py''}
   \<and> impact_ids (query_impact example_graph [''a.py''] (Suc 0) False) = {''spec:S1'', ''code:a.py''}"
proof -
  have z: "query_impact example_graph [''a.py''] 0 False =
      \<lparr>impact_specs = [],
       impact_code = [\<lparr>node_id = ''code:a.py'', node_kind = CODE, node_path = ''a.py''\<rparr>],
       impact_tests = []\<rparr>"
    by code_simp
  have o: "query_impact example_graph [''a.py''] (Suc 0) False =
      \<lparr>impact_specs = [\<lparr>node_id = ''spec:S1'', node_kind = SPEC, node_path = ''''\<rparr>],
       impact_code = [\<lparr>node_id = ''code:a.py'', node_kind = CODE, node_path = ''a.py''\<rparr>],
       impact_tests = []\<rparr>"
    by code_simp
  from query_impact_depth_monotone [of example_graph "[''a.py'']" 0 False]
  have "impact_ids (query_impact example_graph [''a.py''] 0 False)
     \<subseteq> impact_ids (query_impact example_graph [''a.py''] (Suc 0) False)" by blast
  moreover have "impact_ids (query_impact example_graph [''a.py''] 0 False) = {''code:a.py''}"
    by (simp add: z impact_ids_def)
  moreover have "impact_ids (query_impact example_graph [''a.py''] (Suc 0) False) = {''spec:S1'', ''code:a.py''}"
    by (auto simp: o impact_ids_def)
  ultimately show ?thesis by blast
qed

subsection \<open>Depth zero\<close>

lemma reached_ids_0: "reached_ids g changed 0 inc = seed_ids g changed"
  by (simp add: reached_ids_def)

lemma seed_member:
  assumes "distinct (map node_id (nodes g))" and "n \<in> set (nodes g)"
  shows "node_id n \<in> set (seed_ids g changed) \<longleftrightarrow> is_seed changed n"
proof
  assume "node_id n \<in> set (seed_ids g changed)"
  then obtain m where m: "m \<in> set (nodes g)" "is_seed changed m" "node_id m = node_id n"
    by (auto simp: seed_ids_def)
  from assms(1) have "inj_on node_id (set (nodes g))" by (simp add: distinct_map)
  with m(1,3) assms(2) have "m = n" by (auto dest: inj_onD)
  with m(2) show "is_seed changed n" by simp
next
  assume "is_seed changed n"
  with assms(2) show "node_id n \<in> set (seed_ids g changed)" by (auto simp: seed_ids_def)
qed

lemma nodes_of_kind_seeds:
  assumes "distinct (map node_id (nodes g))"
  shows "nodes_of_kind g (seed_ids g changed) k =
           sort_key node_id (filter (\<lambda>n. node_kind n = k \<and> is_seed changed n) (nodes g))"
proof -
  have "filter (\<lambda>n. node_kind n = k \<and> node_id n \<in> set (seed_ids g changed)) (nodes g) =
        filter (\<lambda>n. node_kind n = k \<and> is_seed changed n) (nodes g)"
    by (rule filter_cong) (auto simp: seed_member [OF assms])
  moreover from assms have "distinct (nodes g)" by (simp add: distinct_map)
  ultimately show ?thesis by (simp add: nodes_of_kind_def distinct_remdups_id)
qed

text \<open>
  Claim C3. At depth 0 \<open>query_impact\<close> returns exactly the seeds and expands nothing: no
  spec, and as code and tests the CODE and TEST nodes whose path is an entry of the changed
  files, ordered by identifier. Entries that are the path of no node are ignored: leaving
  them out gives the same result, and no input makes the query fail. Identifiers are unique
  in the graph, as the data model requires.
\<close>

theorem query_impact_depth_zero:
  assumes "distinct (map node_id (nodes g))"
  shows "impact_specs (query_impact g changed 0 inc) = []
       \<and> impact_code (query_impact g changed 0 inc) =
           sort_key node_id
             (filter (\<lambda>n. node_kind n = CODE \<and> node_path n \<in> set changed) (nodes g))
       \<and> impact_tests (query_impact g changed 0 inc) =
           sort_key node_id
             (filter (\<lambda>n. node_kind n = TEST \<and> node_path n \<in> set changed) (nodes g))
       \<and> query_impact g changed 0 inc =
           query_impact g (filter (\<lambda>p. p \<in> node_path ` set (nodes g)) changed) 0 inc"
proof -
  note k = nodes_of_kind_seeds [OF assms]
  have s: "impact_specs (query_impact g changed 0 inc) = []"
    by (simp add: query_impact_def reached_ids_0 k is_seed_def)
  have "filter (\<lambda>n. node_kind n = CODE \<and> is_seed changed n) (nodes g) =
        filter (\<lambda>n. node_kind n = CODE \<and> node_path n \<in> set changed) (nodes g)"
    by (rule filter_cong) (auto simp: is_seed_def)
  then have c: "impact_code (query_impact g changed 0 inc) =
           sort_key node_id
             (filter (\<lambda>n. node_kind n = CODE \<and> node_path n \<in> set changed) (nodes g))"
    by (simp add: query_impact_def reached_ids_0 k)
  have "filter (\<lambda>n. node_kind n = TEST \<and> is_seed changed n) (nodes g) =
        filter (\<lambda>n. node_kind n = TEST \<and> node_path n \<in> set changed) (nodes g)"
    by (rule filter_cong) (auto simp: is_seed_def)
  then have t: "impact_tests (query_impact g changed 0 inc) =
           sort_key node_id
             (filter (\<lambda>n. node_kind n = TEST \<and> node_path n \<in> set changed) (nodes g))"
    by (simp add: query_impact_def reached_ids_0 k)
  have "filter (is_seed (filter (\<lambda>p. p \<in> node_path ` set (nodes g)) changed)) (nodes g) =
        filter (is_seed changed) (nodes g)"
    by (rule filter_cong) (auto simp: is_seed_def)
  then have "seed_ids g (filter (\<lambda>p. p \<in> node_path ` set (nodes g)) changed) = seed_ids g changed"
    by (simp add: seed_ids_def)
  then have u: "query_impact g changed 0 inc =
           query_impact g (filter (\<lambda>p. p \<in> node_path ` set (nodes g)) changed) 0 inc"
    by (simp add: query_impact_def reached_ids_0)
  from s c t u show ?thesis by blast
qed

text \<open>On the example graph, with a path that no node has among the changed files.\<close>

theorem query_impact_depth_zero_witness:
  "distinct (map node_id (nodes example_graph))
   \<and> query_impact example_graph [''a.py'', ''nothing.py''] 0 True =
       \<lparr>impact_specs = [],
        impact_code = [\<lparr>node_id = ''code:a.py'', node_kind = CODE, node_path = ''a.py''\<rparr>],
        impact_tests = []\<rparr>"
proof -
  have d: "distinct (map node_id (nodes example_graph))"
    by (simp add: example_graph_def)
  have n: "nodes example_graph =
        [\<lparr>node_id = ''code:a.py'', node_kind = CODE, node_path = ''a.py''\<rparr>,
         \<lparr>node_id = ''spec:S1'', node_kind = SPEC, node_path = ''''\<rparr>,
         \<lparr>node_id = ''test:test_a.py'', node_kind = TEST, node_path = ''test_a.py''\<rparr>,
         \<lparr>node_id = ''spec:S2'', node_kind = SPEC, node_path = ''''\<rparr>]"
    by (simp add: example_graph_def)
  note z = query_impact_depth_zero
             [OF d, where changed = "[''a.py'', ''nothing.py'']" and inc = True]
  from z [THEN conjunct1]
  have s: "impact_specs (query_impact example_graph [''a.py'', ''nothing.py''] 0 True) = []" .
  from z [THEN conjunct2, THEN conjunct1]
  have c: "impact_code (query_impact example_graph [''a.py'', ''nothing.py''] 0 True) =
       [\<lparr>node_id = ''code:a.py'', node_kind = CODE, node_path = ''a.py''\<rparr>]"
    by (simp add: n)
  from z [THEN conjunct2, THEN conjunct2, THEN conjunct1]
  have t: "impact_tests (query_impact example_graph [''a.py'', ''nothing.py''] 0 True) = []"
    by (simp add: n)
  from d s c t show ?thesis
    by (cases "query_impact example_graph [''a.py'', ''nothing.py''] 0 True") simp
qed

section \<open>Properties of the client\<close>

lemma truncate_bundle_stops:
  "truncate_bundle cl t budget ss ds tokens = (ss', ds', tokens') \<Longrightarrow>
     tokens' \<le> budget \<or> (ss' = [] \<and> ds' = [])"
proof (induction cl t budget ss ds tokens rule: truncate_bundle.induct)
  case (1 cl t budget ss ds tokens)
  show ?case
  proof (cases "tokens > budget \<and> (ss \<noteq> [] \<or> ds \<noteq> [])")
    case False
    with "1.prems" show ?thesis
      by (auto simp: truncate_bundle.simps [of cl t budget ss ds tokens])
  next
    case True
    show ?thesis
    proof (cases "ds \<noteq> [] \<and> (ss = [] \<or> sum_relevance (last ds) < sum_relevance (last ss))")
      case drop_design: True
      with True "1.prems"
      have "truncate_bundle cl t budget ss (butlast ds)
              (estimate_bundle_tokens cl ss (butlast ds) t) = (ss', ds', tokens')"
        by (subst (asm) truncate_bundle.simps) simp
      with "1.IH"(1) True drop_design show ?thesis by blast
    next
      case keep_design: False
      with True have spec_left: "ss \<noteq> []" by blast
      with True keep_design "1.prems"
      have "truncate_bundle cl t budget (butlast ss) ds
              (estimate_bundle_tokens cl (butlast ss) ds t) = (ss', ds', tokens')"
        by (subst (asm) truncate_bundle.simps) auto
      with "1.IH"(2) True keep_design spec_left show ?thesis by blast
    qed
  qed
qed

subsection \<open>The context bundle stays within its budget\<close>

text \<open>
  Claim C10. Every bundle that \<open>get_context_for_change\<close> returns holds the budget it
  was called with, and its \<open>total_tokens\<close> is at most that budget unless both its
  \<open>specs\<close> and its \<open>designs\<close> are empty: the truncation loop stops over budget only
  when nothing is left to drop. The two early returns leave \<open>specs\<close> and \<open>designs\<close>
  at the defaults of \<open>ContextBundle\<close>, taken to be empty lists. The function returns
  on every input; the only failure that leaves it is the memory bank's.
\<close>

theorem get_context_for_change_within_budget:
  assumes "specs dflt = []" and "designs dflt = []"
  shows "case get_context_for_change dflt cl files budget fmt of
           Inl e \<Rightarrow> files \<noteq> [] \<and> find_relevant_blocks cl files = Inl e
         | Inr b \<Rightarrow> token_budget b = budget \<and>
                    (total_tokens b \<le> token_budget b \<or> (specs b = [] \<and> designs b = []))"
proof (cases "files = []")
  case True
  with assms show ?thesis by (simp add: get_context_for_change_def)
next
  case files: False
  show ?thesis
  proof (cases "find_relevant_blocks cl files")
    case (Inl e)
    with files show ?thesis by (simp add: get_context_for_change_def)
  next
    case (Inr relevant_blocks)
    show ?thesis
    proof (cases "relevant_blocks = []")
      case True
      with files Inr assms show ?thesis by (simp add: get_context_for_change_def)
    next
      case False
      obtain ss ds where cat: "categorize relevant_blocks [] [] = (ss, ds)"
        by (cases "categorize relevant_blocks [] []")
      define t where "t = generate_tldr cl (ss @ ds) DEFAULT_TLDR_BUDGET"
      obtain ss' ds' tokens' where
        loop: "truncate_bundle cl t budget ss ds (estimate_bundle_tokens cl ss ds t) = (ss', ds', tokens')"
        by (cases "truncate_bundle cl t budget ss ds (estimate_bundle_tokens cl ss ds t)")
      from truncate_bundle_stops [OF loop]
      have "tokens' \<le> budget \<or> (ss' = [] \<and> ds' = [])" .
      with files Inr False cat loop show ?thesis
        by (simp add: get_context_for_change_def t_def Let_def)
    qed
  qed
qed

text \<open>With a budget of 110 characters the design is dropped and the requirement stays.\<close>

theorem get_context_for_change_within_budget_witness:
  "specs empty_bundle = [] \<and> designs empty_bundle = [] \<and>
   (case get_context_for_change empty_bundle example_client [''a.py''] 110 ''json'' of
      Inl e \<Rightarrow> False
    | Inr b \<Rightarrow> total_tokens b = 103 \<and> token_budget b = 110 \<and> total_tokens b \<le> token_budget b
               \<and> map sum_id (specs b) = [''S1''] \<and> designs b = [])"
proof -
  have d: "specs empty_bundle = []" "designs empty_bundle = []"
    by (simp_all add: empty_bundle_def)
  have run: "(case get_context_for_change empty_bundle example_client [''a.py''] 110 ''json'' of
      Inl e \<Rightarrow> False
    | Inr b \<Rightarrow> total_tokens b = 103 \<and> map sum_id (specs b) = [''S1''] \<and> designs b = [])"
    by code_simp
  from get_context_for_change_within_budget
         [OF d, where cl = example_client and files = "[''a.py'']" and budget = 110 and fmt = "''json''"] run d
  show ?thesis by (auto split: sum.splits)
qed

subsection \<open>Impacted specs fall back to the semantic search\<close>

text \<open>
  Claim C9. When the traversal of the impact graph raises in \<open>get_impacted_specs\<close>, the
  client does not pass that failure on: the result is what the semantic search over the same
  files gives, the blocks of its ranked results. Only a failure of the semantic search
  itself, which no handler encloses, leaves the function.
\<close>

theorem get_impacted_specs_falls_back:
  assumes "impacted_files cl changed git_diff = files" and "files \<noteq> []"
    and "get_impact_set cl files 2 False = Inl e"
  shows "get_impacted_specs cl changed git_diff =
           (case find_relevant_blocks cl files of
              Inl e' \<Rightarrow> Inl e'
            | Inr relevant \<Rightarrow> Inr (map fst relevant))"
  using assms by (simp add: get_impacted_specs_def)


text \<open>The example client's graph is corrupt, and its memory bank answers.\<close>

theorem get_impacted_specs_falls_back_witness:
  "impacted_files example_client (Some [''a.py'']) None = [''a.py''] \<and>
   get_impact_set example_client [''a.py''] 2 False = Inl (GraphError ''corrupt store'') \<and>
   find_relevant_blocks example_client [''a.py''] = Inr example_blocks \<and>
   get_impacted_specs example_client (Some [''a.py'']) None = Inr (map fst example_blocks)"
proof -
  have f: "impacted_files example_client (Some [''a.py'']) None = [''a.py'']"
    by (simp add: impacted_files_def)
  have n: "[''a.py''] \<noteq> []" by simp
  have g: "get_impact_set example_client [''a.py''] 2 False = Inl (GraphError ''corrupt store'')"
    by (simp add: get_impact_set_def example_client_def)
  have s: "find_relevant_blocks example_client [''a.py''] = Inr example_blocks"
    by (simp add: find_relevant_blocks_def example_client_def)
  from get_impacted_specs_falls_back [OF f n g] f g s show ?thesis by simp
qed
section \<open>Properties of governance and the version store\<close>

subsection \<open>Transitions are atomic\<close>

text \<open>
  Claim C5. A rejected transition leaves the whole governance state as it was, so it appends
  no audit entry, and signals the invalid transition to the caller; an accepted transition
  appends exactly one audit entry, the one it returns.
\<close>

theorem apply_transition_atomic:
  "case apply_transition table now g entity from_status to_status of
     (Inl err, g') \<Rightarrow>
        \<not> validate_transition table from_status to_status
        \<and> err = InvalidTransition from_status to_status \<and> g' = g
   | (Inr entry, g') \<Rightarrow>
        validate_transition table from_status to_status
        \<and> audit_log g' = audit_log g @ [entry]
        \<and> length (audit_log g') = Suc (length (audit_log g))"
  by (simp add: apply_transition_def Let_def)

text \<open>From OBSOLETE the example table allows nothing; from ACTIVE it allows LEGACY.\<close>

theorem apply_transition_atomic_witness:
  "apply_transition example_table 7 empty_governance ''S1'' OBSOLETE ACTIVE =
     (Inl (InvalidTransition OBSOLETE ACTIVE), empty_governance)
   \<and> audit_log (snd (apply_transition example_table 7 empty_governance ''S1'' ACTIVE LEGACY)) =
       [\<lparr>audit_entity = ''S1'', audit_from = ACTIVE, audit_to = LEGACY, audit_timestamp = 7\<rparr>]"
proof -
  have r: "\<not> validate_transition example_table OBSOLETE ACTIVE"
    by (simp add: validate_transition_def example_table_def)
  have a: "validate_transition example_table ACTIVE LEGACY"
    by (simp add: validate_transition_def example_table_def)
  from r apply_transition_atomic [where table = example_table and now = 7 and g = empty_governance
      and entity = "''S1''" and from_status = OBSOLETE and to_status = ACTIVE]
  have 1: "apply_transition example_table 7 empty_governance ''S1'' OBSOLETE ACTIVE =
     (Inl (InvalidTransition OBSOLETE ACTIVE), empty_governance)"
    by (auto split: prod.splits sum.splits)
  have e: "fst (apply_transition example_table 7 empty_governance ''S1'' ACTIVE LEGACY) =
      Inr \<lparr>audit_entity = ''S1'', audit_from = ACTIVE, audit_to = LEGACY, audit_timestamp = 7\<rparr>"
    using a by (simp add: apply_transition_def Let_def)
  from a e apply_transition_atomic [where table = example_table and now = 7 and g = empty_governance
      and entity = "''S1''" and from_status = ACTIVE and to_status = LEGACY]
  have 2: "audit_log (snd (apply_transition example_table 7 empty_governance ''S1'' ACTIVE LEGACY)) =
       [\<lparr>audit_entity = ''S1'', audit_from = ACTIVE, audit_to = LEGACY, audit_timestamp = 7\<rparr>]"
    by (auto simp: empty_governance_def split: prod.splits sum.splits)
  from 1 2 show ?thesis by blast
qed

subsection \<open>The diff of a short history, and its defaults\<close>

text \<open>
  Claim C8. \<open>get_diff\<close> is absent whenever the spec has fewer than two versions, and
  with two or more versions and a version argument omitted it is the diff of the two most
  recent versions.
\<close>

theorem get_diff_defaults:
  "(length (versions_of st sid) < 2 \<longrightarrow> get_diff units st sid from_version to_version = None)
   \<and> (2 \<le> length (versions_of st sid) \<and> (from_version = None \<or> to_version = None) \<longrightarrow>
        get_diff units st sid from_version to_version =
          Some (make_change units
                  (versions_of st sid ! (length (versions_of st sid) - 2))
                  (last (versions_of st sid))))"
proof -
  have "2 \<le> length (versions_of st sid) \<Longrightarrow>
        versions_of st sid ! (length (versions_of st sid) - Suc 0) = last (versions_of st sid)"
    by (cases "versions_of st sid") (auto simp: last_conv_nth)
  then show ?thesis
    by (cases from_version; cases to_version) (auto simp: get_diff_def Let_def)
qed

subsection \<open>Deprecations\<close>

lemma sorted_urgency_desc: "sorted (rev (map dep_urgency (sort_by_urgency_desc ds)))"
  by (simp add: sort_by_urgency_desc_def rev_map)

lemma set_sort_by_urgency_desc: "set (sort_by_urgency_desc ds) = set ds"
  by (simp add: sort_by_urgency_desc_def)

text \<open>
  Claim C7. \<open>get_deprecations\<close> without \<open>include_expired\<close> returns no entry whose
  deadline has passed; every result is ordered by urgency, non-increasing; an entry past its
  deadline appears only with \<open>include_expired\<close>, and the result without it is the result
  with it less the expired entries.
\<close>

theorem get_deprecations_ordered:
  "(\<forall>d \<in> set (get_deprecations urgency impacted now st False). \<not> expired now d)
   \<and> sorted (rev (map dep_urgency (get_deprecations urgency impacted now st include_expired)))
   \<and> (\<forall>d \<in> set (get_deprecations urgency impacted now st include_expired).
        expired now d \<longrightarrow> include_expired)
   \<and> set (get_deprecations urgency impacted now st False) =
       {d \<in> set (get_deprecations urgency impacted now st True). \<not> expired now d}"
  by (auto simp: get_deprecations_def sorted_urgency_desc set_sort_by_urgency_desc)

end
